theory Spec2Isabelle
  imports Main "HOL-Library.AList"
begin

section \<open>Values, errors and external collaborators\<close>

text \<open>
  Python values that cross the routing layer: arguments handed through to a backend
  controller and the results that come back. \<open>PIter\<close> is an iterator over the listed
  items (\<^verbatim>\<open>iter([[]])\<close> is \<open>PIter [PList []]\<close>).
\<close>

datatype pyval =
    PNone
  | PBool bool
  | PInt int
  | PStr string
  | PList "pyval list"
  | PIter "pyval list"

type_synonym project = "string option"
type_synonym queue = string
type_synonym shard_id = string

definition py_project :: "project \<Rightarrow> pyval" where
  "py_project p = (case p of None \<Rightarrow> PNone | Some x \<Rightarrow> PStr x)"

text \<open>
  Exceptions as values. \<open>QueueDoesNotExist\<close> and \<open>ClaimDoesNotExist\<close> carry their
  constructor arguments in the order the call site passes them. \<open>NotFound\<close> is the error
  of the shard store for an absent shard, \<open>PartitionNotFound\<close> that of the partition
  store. \<open>BackendError\<close> stands for any other exception a storage backend raises.
\<close>

datatype error =
    QueueNotMapped
  | QueueDoesNotExist pyval pyval
  | ClaimDoesNotExist pyval pyval pyval
  | NoShardFound
  | NotFound string
  | PartitionNotFound string
  | InvalidDriver
  | AssertionError string
  | KeyError string
  | BackendError string

record shard =
  shard_name :: string
  shard_weight :: nat
  shard_uri :: string
  shard_options :: "(string \<times> pyval) list"

text \<open>
  The configuration \<open>_init_driver\<close> assembles: the general option \<open>dynamic\<close>, the
  option \<open>storage\<close> of group \<^verbatim>\<open>queues:drivers\<close>, and the storage-specific options
  with the name of their group.
\<close>

record conf =
  conf_dynamic :: bool
  conf_storage :: string
  conf_storage_group :: string
  conf_storage_opts :: "(string \<times> pyval) list"

text \<open>
  A storage driver object. \<open>driver_id\<close> is the object's identity: the number of driver
  objects constructed before it.
\<close>

record driver =
  driver_id :: nat
  driver_conf :: conf

datatype resource = Queue | Message | Claim

text \<open>
  What the routing layer consumes from outside this repository's sources: the scheme
  component of \<^verbatim>\<open>urlparse\<close>, whether stevedore finds a plugin of a given name in a
  given namespace, and the resource controllers of a driver. \<open>invoke d r m args kwargs\<close>
  is the call \<^verbatim>\<open>d.<r>_controller.<m>(*args, **kwargs)\<close> on the backend state \<open>'b\<close>.
\<close>

record 'b env =
  urlparse_scheme :: "string \<Rightarrow> string"
  plugin_available :: "string \<Rightarrow> string \<Rightarrow> bool"
  invoke :: "driver \<Rightarrow> resource \<Rightarrow> string \<Rightarrow> pyval list \<Rightarrow> (string \<times> pyval) list
             \<Rightarrow> 'b \<Rightarrow> (error + pyval) \<times> 'b"

text \<open>
  The state the sharding layer works on: the catalogue store, the shard store, the
  driver cache \<^verbatim>\<open>Catalog._drivers\<close>, the number of driver objects constructed so far,
  and the state of the storage backends.
\<close>

record 'b world =
  catalogue :: "project \<times> queue \<rightharpoonup> shard_id"
  shards :: "shard list"
  drivers :: "shard_id \<rightharpoonup> driver"
  built :: nat
  backend :: 'b

section \<open>Stores and selector consumed by the Catalog\<close>

text \<open>
  The catalogue controller (\<^verbatim>\<open>control.catalogue_controller\<close>), the shards controller
  (\<^verbatim>\<open>control.shards_controller\<close>) and the selector (\<^verbatim>\<open>select.weighted\<close>) are called
  by the Catalog but are not among the sources. The spec gives the catalogue store as
  \<^verbatim>\<open>exists/get/insert/delete\<close> keyed by \<^verbatim>\<open>(project, queue)\<close>, with at most one
  entry per key.
\<close>

text \<open>
  Modelled from the spec: \<^verbatim>\<open>exists(project, queue)\<close> of the catalogue controller, whether
  the key has an entry.
\<close>

definition catalogue_exists :: "(project \<times> queue \<rightharpoonup> shard_id) \<Rightarrow> project \<Rightarrow> queue \<Rightarrow> bool" where
  "catalogue_exists c project queue = (c (project, queue) \<noteq> None)"

text \<open>
  Modelled from the spec: \<^verbatim>\<open>get(project, queue)\<close> of the catalogue controller, the shard
  id of the entry. On an unmapped key it raises \<^verbatim>\<open>QueueNotMapped\<close>, the exception
  \<^verbatim>\<open>Catalog.lookup\<close> catches.
\<close>

definition catalogue_get :: "(project \<times> queue \<rightharpoonup> shard_id) \<Rightarrow> project \<Rightarrow> queue \<Rightarrow> error + shard_id" where
  "catalogue_get c project queue =
     (case c (project, queue) of None \<Rightarrow> Inl QueueNotMapped | Some sid \<Rightarrow> Inr sid)"

text \<open>
  Modelled from the spec: \<^verbatim>\<open>insert(project, queue, shard)\<close> of the catalogue controller;
  the last writer wins on the key.
\<close>

definition catalogue_insert ::
  "(project \<times> queue \<rightharpoonup> shard_id) \<Rightarrow> project \<Rightarrow> queue \<Rightarrow> shard_id \<Rightarrow> (project \<times> queue \<rightharpoonup> shard_id)" where
  "catalogue_insert c project queue sid = c((project, queue) \<mapsto> sid)"

text \<open>
  Modelled from the spec: \<^verbatim>\<open>delete(project, queue)\<close> of the catalogue controller; no
  error when the key has no entry.
\<close>

definition catalogue_delete ::
  "(project \<times> queue \<rightharpoonup> shard_id) \<Rightarrow> project \<Rightarrow> queue \<Rightarrow> (project \<times> queue \<rightharpoonup> shard_id)" where
  "catalogue_delete c project queue = c((project, queue) := None)"

text \<open>
  Modelled from the spec: \<^verbatim>\<open>list(limit=0)\<close> of the shards controller, every shard
  record.
\<close>

definition shards_list :: "shard list \<Rightarrow> shard list" where
  "shards_list ss = ss"

text \<open>
  Modelled from the spec: \<^verbatim>\<open>get(id, detailed=True)\<close> of the shards controller, the
  record with that id; it fails with NotFound if the record is absent.
\<close>

definition shards_get :: "shard list \<Rightarrow> shard_id \<Rightarrow> error + shard" where
  "shards_get ss sid =
     (case find (\<lambda>s. shard_name s = sid) ss of
        None \<Rightarrow> Inl (NotFound sid)
      | Some s \<Rightarrow> Inr s)"

text \<open>
  Modelled from the spec: \<^verbatim>\<open>delete(id)\<close> of the shards controller removes the record
  with that id and does not fail when it is absent.
\<close>

definition shards_delete :: "shard list \<Rightarrow> shard_id \<Rightarrow> shard list" where
  "shards_delete ss sid = filter (\<lambda>s. shard_name s \<noteq> sid) ss"

text \<open>
  Modelled from the spec: the scan of the Weighted Selector, the first candidate whose
  cumulative weight exceeds the point. \<open>acc\<close> is the weight of the candidates passed.
\<close>

fun first_exceeding :: "nat \<Rightarrow> nat \<Rightarrow> shard list \<Rightarrow> shard option" where
  "first_exceeding point acc [] = None"
| "first_exceeding point acc (c # cs) =
     (if point < acc + shard_weight c then Some c
      else first_exceeding point (acc + shard_weight c) cs)"

text \<open>
  Modelled from the spec: the Weighted Selector \<^verbatim>\<open>select.weighted\<close>. It computes the
  total weight; if that is 0 (so also on an empty sequence) it returns none; otherwise
  it draws a point in \<open>[0, total)\<close> and returns the first candidate whose cumulative
  weight exceeds the point. The random draw is the argument \<open>rnd\<close>, reduced into the
  range.
\<close>

definition weighted :: "nat \<Rightarrow> shard list \<Rightarrow> shard option" where
  "weighted rnd candidates =
     (let total = sum_list (map shard_weight candidates)
      in if total = 0 then None else first_exceeding (rnd mod total) 0 candidates)"

section \<open>Loading a storage driver\<close>

text \<open>
  \<^verbatim>\<open>utils.load_storage_driver\<close>: the plugin named by \<^verbatim>\<open>conf['queues:drivers'].storage\<close>
  is looked up in the namespace of the mode and instantiated with \<open>conf\<close>; a
  \<^verbatim>\<open>RuntimeError\<close> of the plugin manager becomes \<open>InvalidDriver\<close>. The last argument is
  the identity the new object gets.
\<close>

definition load_storage_driver :: "'b env \<Rightarrow> conf \<Rightarrow> bool \<Rightarrow> nat \<Rightarrow> error + driver" where
  "load_storage_driver e cnf control_mode n =
     (let mode = (if control_mode then ''control'' else ''data'');
          driver_type = ''marconi.queues.'' @ mode @ ''.storage''
      in if plugin_available e driver_type (conf_storage cnf)
         then Inr \<lparr>driver_id = n, driver_conf = cnf\<rparr>
         else Inl InvalidDriver)"

section \<open>The Catalog\<close>

text \<open>
  \<^verbatim>\<open>Catalog._init_driver\<close>: fetch the shard record, derive the configuration from its
  uri and options, load the driver. A successful load constructs one more driver object.
\<close>

definition Catalog_init_driver :: "'b env \<Rightarrow> shard_id \<Rightarrow> 'b world \<Rightarrow> (error + driver) \<times> 'b world" where
  "Catalog_init_driver e sid s =
     (case shards_get (shards s) sid of
        Inl err \<Rightarrow> (Inl err, s)
      | Inr shard \<Rightarrow>
          (let uri = shard_uri shard;
               storage_type = urlparse_scheme e uri;
               storage_dict_opts = AList.update ''uri'' (PStr uri) (shard_options shard);
               storage_group = ''queues:drivers:storage:'' @ storage_type;
               cnf = \<lparr>conf_dynamic = True, conf_storage = storage_type,
                      conf_storage_group = storage_group,
                      conf_storage_opts = storage_dict_opts\<rparr>
           in case load_storage_driver e cnf False (built s) of
                Inl err \<Rightarrow> (Inl err, s)
              | Inr d \<Rightarrow> (Inr d, s\<lparr>built := Suc (built s)\<rparr>)))"

text \<open>
  \<^verbatim>\<open>Catalog.register\<close>: nothing happens when the entry exists; otherwise a shard is
  selected among all shard records and the entry inserted, or \<open>NoShardFound\<close> raised.
\<close>

definition Catalog_register :: "nat \<Rightarrow> queue \<Rightarrow> project \<Rightarrow> 'b world \<Rightarrow> (error + unit) \<times> 'b world" where
  "Catalog_register rnd queue project s =
     (if \<not> catalogue_exists (catalogue s) project queue then
        (case weighted rnd (shards_list (shards s)) of
           None \<Rightarrow> (Inl NoShardFound, s)
         | Some shard \<Rightarrow>
             (Inr (), s\<lparr>catalogue := catalogue_insert (catalogue s) project queue (shard_name shard)\<rparr>))
      else (Inr (), s))"

definition Catalog_deregister :: "queue \<Rightarrow> project \<Rightarrow> 'b world \<Rightarrow> (error + unit) \<times> 'b world" where
  "Catalog_deregister queue project s =
     (Inr (), s\<lparr>catalogue := catalogue_delete (catalogue s) project queue\<rparr>)"

text \<open>
  \<^verbatim>\<open>Catalog.lookup\<close>: \<open>Inr None\<close> is the return value \<^verbatim>\<open>None\<close> for an unmapped queue. A
  mapped queue gets the cached driver of its shard; on a \<^verbatim>\<open>KeyError\<close> the driver is
  built and stored in the cache.
\<close>

definition Catalog_lookup ::
  "'b env \<Rightarrow> queue \<Rightarrow> project \<Rightarrow> 'b world \<Rightarrow> (error + driver option) \<times> 'b world" where
  "Catalog_lookup e queue project s =
     (case catalogue_get (catalogue s) project queue of
        Inl QueueNotMapped \<Rightarrow> (Inr None, s)
      | Inl err \<Rightarrow> (Inl err, s)
      | Inr sid \<Rightarrow>
          (case drivers s sid of
             Some d \<Rightarrow> (Inr (Some d), s)
           | None \<Rightarrow>
               (case Catalog_init_driver e sid s of
                  (Inl err, s1) \<Rightarrow> (Inl err, s1)
                | (Inr d, s1) \<Rightarrow> (Inr (Some d), s1\<lparr>drivers := (drivers s1)(sid \<mapsto> d)\<rparr>))))"

section \<open>Routing controllers\<close>

text \<open>The call \<^verbatim>\<open>d.<r>_controller.<m>(*args, **kwargs)\<close>, threading the backend state.\<close>

definition call_backend ::
  "'b env \<Rightarrow> driver \<Rightarrow> resource \<Rightarrow> string \<Rightarrow> pyval list \<Rightarrow> (string \<times> pyval) list
   \<Rightarrow> 'b world \<Rightarrow> (error + pyval) \<times> 'b world" where
  "call_backend e d r m args kwargs s =
     (case invoke e d r m args kwargs (backend s) of (res, b) \<Rightarrow> (res, s\<lparr>backend := b\<rparr>))"

subsection \<open>QueueController\<close>

definition QueueController_list :: "project \<Rightarrow> pyval \<Rightarrow> pyval \<Rightarrow> pyval \<Rightarrow> 'b world \<Rightarrow> (error + pyval) \<times> 'b world" where
  "QueueController_list project marker limit detailed s = (Inr (PList []), s)"

text \<open>
  \<^verbatim>\<open>QueueController.create\<close> from its lookup on: the lookup, the assertion on its
  result and the forwarded call.
\<close>

definition QueueController_create_lookup ::
  "'b env \<Rightarrow> queue \<Rightarrow> project \<Rightarrow> 'b world \<Rightarrow> (error + pyval) \<times> 'b world" where
  "QueueController_create_lookup e name project s =
     (case Catalog_lookup e name project s of
        (Inl err, s1) \<Rightarrow> (Inl err, s1)
      | (Inr None, s1) \<Rightarrow> (Inl (AssertionError ''Failed to register queue''), s1)
      | (Inr (Some target), s1) \<Rightarrow>
          call_backend e target Queue ''create'' [PStr name, py_project project] [] s1)"

definition QueueController_create ::
  "'b env \<Rightarrow> nat \<Rightarrow> queue \<Rightarrow> project \<Rightarrow> 'b world \<Rightarrow> (error + pyval) \<times> 'b world" where
  "QueueController_create e rnd name project s =
     (case Catalog_register rnd name project s of
        (Inl err, s1) \<Rightarrow> (Inl err, s1)
      | (Inr u, s1) \<Rightarrow> QueueController_create_lookup e name project s1)"

text \<open>
  The race the comment in \<^verbatim>\<open>create\<close> describes: between the return of \<^verbatim>\<open>register\<close>
  and the lookup, other requests change the shared state by \<open>other\<close>.
\<close>

definition QueueController_create_interleaved ::
  "'b env \<Rightarrow> ('b world \<Rightarrow> 'b world) \<Rightarrow> nat \<Rightarrow> queue \<Rightarrow> project \<Rightarrow> 'b world
   \<Rightarrow> (error + pyval) \<times> 'b world" where
  "QueueController_create_interleaved e other rnd name project s =
     (case Catalog_register rnd name project s of
        (Inl err, s1) \<Rightarrow> (Inl err, s1)
      | (Inr u, s1) \<Rightarrow> QueueController_create_lookup e name project (other s1))"

definition QueueController_delete ::
  "'b env \<Rightarrow> queue \<Rightarrow> project \<Rightarrow> 'b world \<Rightarrow> (error + pyval) \<times> 'b world" where
  "QueueController_delete e name project s =
     (case Catalog_lookup e name project s of
        (Inl err, s1) \<Rightarrow> (Inl err, s1)
      | (Inr None, s1) \<Rightarrow> (Inr PNone, s1)
      | (Inr (Some target), s1) \<Rightarrow>
          (case call_backend e target Queue ''delete'' [PStr name, py_project project] [] s1 of
             (Inl err, s2) \<Rightarrow> (Inl err, s2)
           | (Inr ret, s2) \<Rightarrow>
               (case Catalog_deregister name project s2 of
                  (Inl err, s3) \<Rightarrow> (Inl err, s3)
                | (Inr u, s3) \<Rightarrow> (Inr ret, s3))))"

definition QueueController_exists ::
  "'b env \<Rightarrow> queue \<Rightarrow> project \<Rightarrow> 'b world \<Rightarrow> (error + pyval) \<times> 'b world" where
  "QueueController_exists e name project s =
     (case Catalog_lookup e name project s of
        (Inl err, s1) \<Rightarrow> (Inl err, s1)
      | (Inr None, s1) \<Rightarrow> (Inr (PBool False), s1)
      | (Inr (Some target), s1) \<Rightarrow>
          call_backend e target Queue ''exists'' [PStr name] [(''project'', py_project project)] s1)"

definition QueueController_get_metadata ::
  "'b env \<Rightarrow> queue \<Rightarrow> project \<Rightarrow> 'b world \<Rightarrow> (error + pyval) \<times> 'b world" where
  "QueueController_get_metadata e name project s =
     (case Catalog_lookup e name project s of
        (Inl err, s1) \<Rightarrow> (Inl err, s1)
      | (Inr None, s1) \<Rightarrow> (Inl (QueueDoesNotExist (PStr name) (py_project project)), s1)
      | (Inr (Some target), s1) \<Rightarrow>
          call_backend e target Queue ''get_metadata'' [PStr name]
            [(''project'', py_project project)] s1)"

definition QueueController_set_metadata ::
  "'b env \<Rightarrow> queue \<Rightarrow> pyval \<Rightarrow> project \<Rightarrow> 'b world \<Rightarrow> (error + pyval) \<times> 'b world" where
  "QueueController_set_metadata e name metadata project s =
     (case Catalog_lookup e name project s of
        (Inl err, s1) \<Rightarrow> (Inl err, s1)
      | (Inr None, s1) \<Rightarrow> (Inl (QueueDoesNotExist (PStr name) (py_project project)), s1)
      | (Inr (Some target), s1) \<Rightarrow>
          call_backend e target Queue ''set_metadata'' [PStr name]
            [(''metadata'', metadata), (''project'', py_project project)] s1)"

definition QueueController_stats ::
  "'b env \<Rightarrow> queue \<Rightarrow> project \<Rightarrow> 'b world \<Rightarrow> (error + pyval) \<times> 'b world" where
  "QueueController_stats e name project s =
     (case Catalog_lookup e name project s of
        (Inl err, s1) \<Rightarrow> (Inl err, s1)
      | (Inr None, s1) \<Rightarrow> (Inl (QueueDoesNotExist (PStr name) (py_project project)), s1)
      | (Inr (Some target), s1) \<Rightarrow>
          call_backend e target Queue ''stats'' [PStr name] [(''project'', py_project project)] s1)"

subsection \<open>MessageController\<close>

definition MessageController_post ::
  "'b env \<Rightarrow> queue \<Rightarrow> project \<Rightarrow> pyval \<Rightarrow> pyval \<Rightarrow> 'b world \<Rightarrow> (error + pyval) \<times> 'b world" where
  "MessageController_post e queue project messages client_uuid s =
     (case Catalog_lookup e queue project s of
        (Inl err, s1) \<Rightarrow> (Inl err, s1)
      | (Inr None, s1) \<Rightarrow> (Inl (QueueDoesNotExist (py_project project) (PStr queue)), s1)
      | (Inr (Some target), s1) \<Rightarrow>
          call_backend e target Message ''post'' [PStr queue]
            [(''project'', py_project project), (''messages'', messages),
             (''client_uuid'', client_uuid)] s1)"

definition MessageController_delete ::
  "'b env \<Rightarrow> queue \<Rightarrow> project \<Rightarrow> pyval \<Rightarrow> pyval \<Rightarrow> 'b world \<Rightarrow> (error + pyval) \<times> 'b world" where
  "MessageController_delete e queue project message_id claim s =
     (case Catalog_lookup e queue project s of
        (Inl err, s1) \<Rightarrow> (Inl err, s1)
      | (Inr None, s1) \<Rightarrow> (Inr PNone, s1)
      | (Inr (Some target), s1) \<Rightarrow>
          call_backend e target Message ''delete'' [PStr queue]
            [(''project'', py_project project), (''message_id'', message_id),
             (''claim'', claim)] s1)"

definition MessageController_bulk_delete ::
  "'b env \<Rightarrow> queue \<Rightarrow> project \<Rightarrow> pyval \<Rightarrow> 'b world \<Rightarrow> (error + pyval) \<times> 'b world" where
  "MessageController_bulk_delete e queue project message_ids s =
     (case Catalog_lookup e queue project s of
        (Inl err, s1) \<Rightarrow> (Inl err, s1)
      | (Inr None, s1) \<Rightarrow> (Inr PNone, s1)
      | (Inr (Some target), s1) \<Rightarrow>
          call_backend e target Message ''bulk_delete'' [PStr queue]
            [(''project'', py_project project), (''message_ids'', message_ids)] s1)"

definition MessageController_bulk_get ::
  "'b env \<Rightarrow> queue \<Rightarrow> project \<Rightarrow> pyval \<Rightarrow> 'b world \<Rightarrow> (error + pyval) \<times> 'b world" where
  "MessageController_bulk_get e queue project message_ids s =
     (case Catalog_lookup e queue project s of
        (Inl err, s1) \<Rightarrow> (Inl err, s1)
      | (Inr None, s1) \<Rightarrow> (Inr (PList []), s1)
      | (Inr (Some target), s1) \<Rightarrow>
          call_backend e target Message ''bulk_get'' [PStr queue]
            [(''project'', py_project project), (''message_ids'', message_ids)] s1)"

definition MessageController_list ::
  "'b env \<Rightarrow> queue \<Rightarrow> project \<Rightarrow> pyval \<Rightarrow> pyval \<Rightarrow> pyval \<Rightarrow> pyval \<Rightarrow> pyval \<Rightarrow> 'b world
   \<Rightarrow> (error + pyval) \<times> 'b world" where
  "MessageController_list e queue project marker limit echo client_uuid include_claimed s =
     (case Catalog_lookup e queue project s of
        (Inl err, s1) \<Rightarrow> (Inl err, s1)
      | (Inr None, s1) \<Rightarrow> (Inr (PIter [PList []]), s1)
      | (Inr (Some target), s1) \<Rightarrow>
          call_backend e target Message ''list'' [PStr queue]
            [(''project'', py_project project), (''marker'', marker), (''limit'', limit),
             (''echo'', echo), (''client_uuid'', client_uuid),
             (''include_claimed'', include_claimed)] s1)"

definition MessageController_get ::
  "'b env \<Rightarrow> queue \<Rightarrow> pyval \<Rightarrow> project \<Rightarrow> 'b world \<Rightarrow> (error + pyval) \<times> 'b world" where
  "MessageController_get e queue message_id project s =
     (case Catalog_lookup e queue project s of
        (Inl err, s1) \<Rightarrow> (Inl err, s1)
      | (Inr None, s1) \<Rightarrow> (Inl (QueueDoesNotExist (py_project project) (PStr queue)), s1)
      | (Inr (Some target), s1) \<Rightarrow>
          call_backend e target Message ''get'' [PStr queue]
            [(''message_id'', message_id), (''project'', py_project project)] s1)"

subsection \<open>ClaimController\<close>

definition ClaimController_create ::
  "'b env \<Rightarrow> queue \<Rightarrow> pyval \<Rightarrow> project \<Rightarrow> pyval \<Rightarrow> 'b world \<Rightarrow> (error + pyval) \<times> 'b world" where
  "ClaimController_create e queue metadata project limit s =
     (case Catalog_lookup e queue project s of
        (Inl err, s1) \<Rightarrow> (Inl err, s1)
      | (Inr None, s1) \<Rightarrow> (Inr (PList [PNone, PList []]), s1)
      | (Inr (Some target), s1) \<Rightarrow>
          call_backend e target Claim ''create'' [PStr queue]
            [(''metadata'', metadata), (''project'', py_project project), (''limit'', limit)] s1)"

definition ClaimController_get ::
  "'b env \<Rightarrow> queue \<Rightarrow> pyval \<Rightarrow> project \<Rightarrow> 'b world \<Rightarrow> (error + pyval) \<times> 'b world" where
  "ClaimController_get e queue claim_id project s =
     (case Catalog_lookup e queue project s of
        (Inl err, s1) \<Rightarrow> (Inl err, s1)
      | (Inr None, s1) \<Rightarrow>
          (Inl (ClaimDoesNotExist claim_id (PStr queue) (py_project project)), s1)
      | (Inr (Some target), s1) \<Rightarrow>
          call_backend e target Claim ''get'' [PStr queue]
            [(''claim_id'', claim_id), (''project'', py_project project)] s1)"

definition ClaimController_update ::
  "'b env \<Rightarrow> queue \<Rightarrow> pyval \<Rightarrow> pyval \<Rightarrow> project \<Rightarrow> 'b world \<Rightarrow> (error + pyval) \<times> 'b world" where
  "ClaimController_update e queue claim_id metadata project s =
     (case Catalog_lookup e queue project s of
        (Inl err, s1) \<Rightarrow> (Inl err, s1)
      | (Inr None, s1) \<Rightarrow>
          (Inl (ClaimDoesNotExist claim_id (PStr queue) (py_project project)), s1)
      | (Inr (Some target), s1) \<Rightarrow>
          call_backend e target Claim ''update'' [PStr queue]
            [(''claim_id'', claim_id), (''project'', py_project project),
             (''metadata'', metadata)] s1)"

definition ClaimController_delete ::
  "'b env \<Rightarrow> queue \<Rightarrow> pyval \<Rightarrow> project \<Rightarrow> 'b world \<Rightarrow> (error + pyval) \<times> 'b world" where
  "ClaimController_delete e queue claim_id project s =
     (case Catalog_lookup e queue project s of
        (Inl err, s1) \<Rightarrow> (Inl err, s1)
      | (Inr None, s1) \<Rightarrow> (Inr PNone, s1)
      | (Inr (Some target), s1) \<Rightarrow>
          call_backend e target Claim ''delete'' [PStr queue]
            [(''claim_id'', claim_id), (''project'', py_project project)] s1)"

section \<open>Concurrent use of the Catalog\<close>

text \<open>
  Lookups by several callers one after another, each on the state the one before left;
  the results in the callers' order.
\<close>

fun lookups ::
  "'b env \<Rightarrow> (queue \<times> project) list \<Rightarrow> 'b world \<Rightarrow> (error + driver option) list \<times> 'b world" where
  "lookups e [] s = ([], s)"
| "lookups e ((queue, project) # callers) s =
     (case Catalog_lookup e queue project s of
        (r, s1) \<Rightarrow> (case lookups e callers s1 of (rs, s2) \<Rightarrow> (r # rs, s2)))"

text \<open>
  \<^verbatim>\<open>Catalog.lookup\<close> holds no lock. A caller that got the \<^verbatim>\<open>KeyError\<close> goes on to
  \<^verbatim>\<open>_init_driver\<close>, which reads the shard store; what other callers do to the shared
  state in between is \<open>other\<close>. With \<open>other\<close> the identity this is \<open>Catalog_lookup\<close>.
\<close>

definition Catalog_lookup_interleaved ::
  "'b env \<Rightarrow> ('b world \<Rightarrow> 'b world) \<Rightarrow> queue \<Rightarrow> project \<Rightarrow> 'b world
   \<Rightarrow> (error + driver option) \<times> 'b world" where
  "Catalog_lookup_interleaved e other queue project s =
     (case catalogue_get (catalogue s) project queue of
        Inl QueueNotMapped \<Rightarrow> (Inr None, s)
      | Inl err \<Rightarrow> (Inl err, s)
      | Inr sid \<Rightarrow>
          (case drivers s sid of
             Some d \<Rightarrow> (Inr (Some d), s)
           | None \<Rightarrow>
               (case Catalog_init_driver e sid (other s) of
                  (Inl err, s1) \<Rightarrow> (Inl err, s1)
                | (Inr d, s1) \<Rightarrow> (Inr (Some d), s1\<lparr>drivers := (drivers s1)(sid \<mapsto> d)\<rparr>))))"

text \<open>The effect on the shared state of another caller's whole lookup.\<close>

definition concurrent_lookup :: "'b env \<Rightarrow> queue \<Rightarrow> project \<Rightarrow> 'b world \<Rightarrow> 'b world" where
  "concurrent_lookup e queue project s = snd (Catalog_lookup e queue project s)"

text \<open>The effect on the shared state of another request's deregistration.\<close>

definition concurrent_deregister :: "queue \<Rightarrow> project \<Rightarrow> 'b world \<Rightarrow> 'b world" where
  "concurrent_deregister queue project s = snd (Catalog_deregister queue project s)"

section \<open>The partition store of the proxy\<close>

text \<open>
  The MongoDB collection \<^verbatim>\<open>partitions\<close> is a list of documents, a document an
  association list from field names to values, with the fields \<^verbatim>\<open>n\<close>, \<^verbatim>\<open>h\<close> and
  \<^verbatim>\<open>w\<close> of the schema. Loss of the connection, which the decorator
  \<^verbatim>\<open>raises_conn_error\<close> translates, is not part of this model.
\<close>

type_synonym document = "(string \<times> pyval) list"

text \<open>The query \<^verbatim>\<open>{'n': name}\<close>.\<close>

definition doc_matches :: "string \<Rightarrow> document \<Rightarrow> bool" where
  "doc_matches name d = (map_of d ''n'' = Some (PStr name))"

text \<open>The update document \<^verbatim>\<open>{'$set': fields}\<close> applied to one document.\<close>

definition set_fields :: "(string \<times> pyval) list \<Rightarrow> document \<Rightarrow> document" where
  "set_fields flds d = fold (\<lambda>(k, v). AList.update k v) flds d"

fun update_first :: "(document \<Rightarrow> bool) \<Rightarrow> (document \<Rightarrow> document) \<Rightarrow> document list
    \<Rightarrow> document list option" where
  "update_first p f [] = None"
| "update_first p f (d # ds) =
     (if p d then Some (f d # ds) else map_option ((#) d) (update_first p f ds))"

text \<open>
  \<^verbatim>\<open>collection.update(spec, {'$set': fields}, upsert)\<close>: the first matching document is
  updated; with no match and \<open>upsert\<close> a document is inserted from the query and the
  fields. The second component is \<^verbatim>\<open>res['updatedExisting']\<close>.
\<close>

definition col_update :: "string \<Rightarrow> (string \<times> pyval) list \<Rightarrow> bool \<Rightarrow> document list
    \<Rightarrow> document list \<times> bool" where
  "col_update name flds upsert col =
     (case update_first (doc_matches name) (set_fields flds) col of
        Some col' \<Rightarrow> (col', True)
      | None \<Rightarrow>
          (if upsert then (col @ [set_fields flds [(''n'', PStr name)]], False)
           else (col, False)))"

record partition =
  part_name :: pyval
  part_hosts :: pyval
  part_weight :: pyval

text \<open>\<^verbatim>\<open>_normalize\<close>; a missing field is the \<^verbatim>\<open>KeyError\<close> of the subscript.\<close>

definition normalize_entry :: "document \<Rightarrow> error + partition" where
  "normalize_entry entry =
     (case map_of entry ''n'' of
        None \<Rightarrow> Inl (KeyError ''n'')
      | Some n \<Rightarrow>
          (case map_of entry ''h'' of
             None \<Rightarrow> Inl (KeyError ''h'')
           | Some h \<Rightarrow>
               (case map_of entry ''w'' of
                  None \<Rightarrow> Inl (KeyError ''w'')
                | Some w \<Rightarrow> Inr \<lparr>part_name = n, part_hosts = h, part_weight = w\<rparr>)))"

definition PartitionsController_get :: "string \<Rightarrow> document list \<Rightarrow> error + partition" where
  "PartitionsController_get name col =
     (case find (doc_matches name) col of
        None \<Rightarrow> Inl (PartitionNotFound name)
      | Some entry \<Rightarrow> normalize_entry entry)"

definition PartitionsController_exists :: "string \<Rightarrow> document list \<Rightarrow> bool" where
  "PartitionsController_exists name col =
     (case find (doc_matches name) col of None \<Rightarrow> False | Some d \<Rightarrow> True)"

definition PartitionsController_create ::
  "string \<Rightarrow> pyval \<Rightarrow> pyval \<Rightarrow> document list \<Rightarrow> document list" where
  "PartitionsController_create name weight hosts col =
     fst (col_update name [(''n'', PStr name), (''w'', weight), (''h'', hosts)] True col)"

definition PartitionsController_delete :: "string \<Rightarrow> document list \<Rightarrow> document list" where
  "PartitionsController_delete name col = filter (\<lambda>d. \<not> doc_matches name d) col"

definition PartitionsController_drop_all :: "document list \<Rightarrow> document list" where
  "PartitionsController_drop_all col = []"

text \<open>
  \<^verbatim>\<open>PartitionsController.update(name, **kwargs)\<close>: \<open>kwargs\<close> are the keyword
  arguments as passed. The fields to set are the non-\<^verbatim>\<open>None\<close> values of \<^verbatim>\<open>hosts\<close>
  and \<^verbatim>\<open>weight\<close> under the first letter of their keyword.
\<close>

definition update_fields :: "(string \<times> pyval) list \<Rightarrow> (string \<times> pyval) list" where
  "update_fields kwargs =
     map (\<lambda>(k, v). ([hd k], v))
       (filter (\<lambda>(k, v). k \<in> set [''hosts'', ''weight''] \<and> v \<noteq> PNone) kwargs)"

definition PartitionsController_update ::
  "string \<Rightarrow> (string \<times> pyval) list \<Rightarrow> document list \<Rightarrow> (error + unit) \<times> document list" where
  "PartitionsController_update name kwargs col =
     (let flds = update_fields kwargs
      in if flds = [] then (Inl (AssertionError ''`hosts` or `weight` not found in kwargs''), col)
         else (case col_update name flds False col of
                 (col', updatedExisting) \<Rightarrow>
                   if \<not> updatedExisting then (Inl (PartitionNotFound name), col')
                   else (Inr (), col')))"

text \<open>
  The value passed for a keyword, \<^verbatim>\<open>None\<close> when the keyword is not passed
  (\<^verbatim>\<open>kwargs.get(k)\<close>). The filter in \<^verbatim>\<open>update\<close> treats a keyword passed as
  \<^verbatim>\<open>None\<close> like one that is not passed.
\<close>

definition kwarg :: "(string \<times> pyval) list \<Rightarrow> string \<Rightarrow> pyval" where
  "kwarg kwargs k = (case map_of kwargs k of None \<Rightarrow> PNone | Some v \<Rightarrow> v)"

section \<open>A small deployment\<close>

text \<open>
  An environment and two states to run the operations on. The backend state is one
  flag, whether the backends are healthy: a healthy backend returns \<^verbatim>\<open>None\<close> from
  every call, an unhealthy one raises. \<open>fresh_world\<close> has no shard and no queue;
  \<open>orders_world\<close> has the shard \<^verbatim>\<open>s1\<close> and the queue \<^verbatim>\<open>orders\<close> mapped to it, with
  no driver built yet.
\<close>

definition example_env :: "bool env" where
  "example_env =
     \<lparr>urlparse_scheme = takeWhile (\<lambda>c. c \<noteq> CHR '':''),
      plugin_available = (\<lambda>ns n. ns = ''marconi.queues.data.storage'' \<and> n = ''mongodb''),
      invoke = (\<lambda>d r m args kwargs b.
                  if b then (Inr PNone, b) else (Inl (BackendError ''unavailable''), b))\<rparr>"

definition fresh_world :: "bool world" where
  "fresh_world =
     \<lparr>catalogue = Map.empty, shards = [], drivers = Map.empty, built = 0, backend = True\<rparr>"

definition orders_world :: "bool world" where
  "orders_world =
     \<lparr>catalogue = [(None, ''orders'') \<mapsto> ''s1''],
      shards = [\<lparr>shard_name = ''s1'', shard_weight = 100,
                 shard_uri = ''mongodb://localhost'', shard_options = []\<rparr>],
      drivers = Map.empty, built = 0, backend = True\<rparr>"

text \<open>The driver built for shard \<^verbatim>\<open>s1\<close> as the \<open>n\<close>-th driver object.\<close>

definition s1_driver :: "nat \<Rightarrow> driver" where
  "s1_driver n =
     \<lparr>driver_id = n,
      driver_conf = \<lparr>conf_dynamic = True, conf_storage = ''mongodb'',
                     conf_storage_group = ''queues:drivers:storage:mongodb'',
                     conf_storage_opts = [(''uri'', PStr ''mongodb://localhost'')]\<rparr>\<rparr>"

text \<open>
  \<open>cached_world\<close>: after a first lookup of \<^verbatim>\<open>orders\<close>, the driver of \<^verbatim>\<open>s1\<close> is
  cached. \<open>stale_world\<close>: then the shard \<^verbatim>\<open>s1\<close> is deleted from the shard store, the
  queue still mapped to it. \<open>billing_world\<close>: \<open>orders_world\<close> with the queue
  \<^verbatim>\<open>billing\<close> registered.
\<close>

definition cached_world :: "bool world" where
  "cached_world = snd (Catalog_lookup example_env ''orders'' None orders_world)"

definition stale_world :: "bool world" where
  "stale_world = cached_world\<lparr>shards := shards_delete (shards cached_world) ''s1''\<rparr>"

definition billing_world :: "bool world" where
  "billing_world =
     orders_world\<lparr>catalogue := (catalogue orders_world)((None, ''billing'') \<mapsto> ''s1'')\<rparr>"

text \<open>A partition store with the partitions \<^verbatim>\<open>s1\<close> and \<^verbatim>\<open>s2\<close>.\<close>

definition partitions_example :: "document list" where
  "partitions_example =
     PartitionsController_create ''s2'' (PInt 7) (PList [PStr ''c''])
       (PartitionsController_create ''s1'' (PInt 100) (PList [PStr ''a'', PStr ''b'']) [])"

section \<open>The deployment, evaluated\<close>

lemma orders_lookup:
  "Catalog_lookup example_env ''orders'' None orders_world = (Inr (Some (s1_driver 0)), cached_world)"
  by (simp add: cached_world_def Catalog_lookup_def catalogue_get_def orders_world_def
      Catalog_init_driver_def shards_get_def load_storage_driver_def example_env_def Let_def
      s1_driver_def)

lemma cached_world_eq:
  "cached_world =
     \<lparr>catalogue = [(None, ''orders'') \<mapsto> ''s1''],
      shards = [\<lparr>shard_name = ''s1'', shard_weight = 100,
                 shard_uri = ''mongodb://localhost'', shard_options = []\<rparr>],
      drivers = [''s1'' \<mapsto> s1_driver 0], built = 1, backend = True\<rparr>"
  by (simp add: cached_world_def Catalog_lookup_def catalogue_get_def orders_world_def
      Catalog_init_driver_def shards_get_def load_storage_driver_def example_env_def Let_def
      s1_driver_def)

lemma cached_world_unfold:
  "cached_world = orders_world\<lparr>drivers := [''s1'' \<mapsto> s1_driver 0], built := 1\<rparr>"
  by (simp add: cached_world_eq orders_world_def)

lemma billing_register:
  "Catalog_register 7 ''billing'' None orders_world = (Inr (), billing_world)"
  by (simp add: Catalog_register_def catalogue_exists_def orders_world_def weighted_def
      shards_list_def catalogue_insert_def billing_world_def)

lemma example_invoke:
  "invoke example_env d r m args kwargs b
     = (if b then (Inr PNone, b) else (Inl (BackendError ''unavailable''), b))"
  by (simp add: example_env_def)

lemma billing_lookup:
  "Catalog_lookup example_env ''billing'' None billing_world
     = (Inr (Some (s1_driver 0)),
        billing_world\<lparr>drivers := [''s1'' \<mapsto> s1_driver 0], built := 1\<rparr>)"
  by (simp add: billing_world_def Catalog_lookup_def catalogue_get_def orders_world_def
      Catalog_init_driver_def shards_get_def load_storage_driver_def example_env_def Let_def
      s1_driver_def)

lemma billing_after_orders_lookup:
  "concurrent_lookup example_env ''orders'' None billing_world
     = billing_world\<lparr>drivers := [''s1'' \<mapsto> s1_driver 0], built := 1\<rparr>"
  by (simp add: concurrent_lookup_def billing_world_def Catalog_lookup_def catalogue_get_def
      orders_world_def Catalog_init_driver_def shards_get_def load_storage_driver_def
      example_env_def Let_def s1_driver_def)

lemma billing_lookup_cached:
  "Catalog_lookup example_env ''billing'' None
     (billing_world\<lparr>drivers := [''s1'' \<mapsto> s1_driver 0], built := 1\<rparr>)
     = (Inr (Some (s1_driver 0)),
        billing_world\<lparr>drivers := [''s1'' \<mapsto> s1_driver 0], built := 1\<rparr>)"
  by (simp add: billing_world_def Catalog_lookup_def catalogue_get_def orders_world_def)

lemma orphan_register:
  "Catalog_register 7 ''orders'' None (orders_world\<lparr>shards := []\<rparr>)
     = (Inr (), orders_world\<lparr>shards := []\<rparr>)"
  by (simp add: Catalog_register_def catalogue_exists_def orders_world_def)

lemma orphan_lookup:
  "Catalog_lookup example_env ''orders'' None (orders_world\<lparr>shards := []\<rparr>)
     = (Inl (NotFound ''s1''), orders_world\<lparr>shards := []\<rparr>)"
  by (simp add: Catalog_lookup_def catalogue_get_def orders_world_def Catalog_init_driver_def
      shards_get_def)

lemma partitions_example_eq:
  "partitions_example =
     [[(''n'', PStr ''s1''), (''w'', PInt 100), (''h'', PList [PStr ''a'', PStr ''b''])],
      [(''n'', PStr ''s2''), (''w'', PInt 7), (''h'', PList [PStr ''c''])]]"
  by (simp add: partitions_example_def PartitionsController_create_def col_update_def
      set_fields_def doc_matches_def)

section \<open>Facts about the Catalog\<close>

lemma Catalog_lookup_unmapped:
  "catalogue s (project, queue) = None \<Longrightarrow> Catalog_lookup e queue project s = (Inr None, s)"
  by (simp add: Catalog_lookup_def catalogue_get_def)

lemma Catalog_lookup_catalogue:
  "Catalog_lookup e queue project s = (r, s1) \<Longrightarrow> catalogue s1 = catalogue s"
  by (auto simp: Catalog_lookup_def Catalog_init_driver_def Let_def
      split: sum.splits error.splits option.splits prod.splits)

lemma Catalog_lookup_mapped_target:
  "catalogue s (project, queue) = Some sid \<Longrightarrow> Catalog_lookup e queue project s = (Inr (Some d), s1)
   \<Longrightarrow> drivers s1 sid = Some d"
  by (auto simp: Catalog_lookup_def catalogue_get_def split: option.splits prod.splits sum.splits)

lemma Catalog_lookup_mapped_not_None:
  "catalogue s (project, queue) \<noteq> None \<Longrightarrow> fst (Catalog_lookup e queue project s) \<noteq> Inr None"
  by (auto simp: Catalog_lookup_def catalogue_get_def split: option.splits prod.splits sum.splits)

lemma Catalog_lookup_cached:
  "catalogue s (project, queue) = Some sid \<Longrightarrow> drivers s sid = Some d
   \<Longrightarrow> Catalog_lookup e queue project s = (Inr (Some d), s)"
  by (simp add: Catalog_lookup_def catalogue_get_def)

lemma Catalog_register_mapped:
  "catalogue s (project, queue) \<noteq> None \<Longrightarrow> Catalog_register rnd queue project s = (Inr (), s)"
  by (simp add: Catalog_register_def catalogue_exists_def)

lemma Catalog_register_maps:
  "Catalog_register rnd queue project s = (Inr u, s1) \<Longrightarrow> catalogue s1 (project, queue) \<noteq> None"
  by (auto simp: Catalog_register_def catalogue_exists_def catalogue_insert_def
      split: if_splits option.splits)

lemma Catalog_init_driver_frame:
  "Catalog_init_driver e sid s = (Inr d, s1) \<Longrightarrow> s1 = s\<lparr>built := Suc (built s)\<rparr>"
  by (auto simp: Catalog_init_driver_def Let_def split: sum.splits)

lemma find_shards_delete:
  "find (\<lambda>s. shard_name s = sid) (shards_delete ss sid) = None"
  by (simp add: shards_delete_def find_None_iff)

lemma QueueController_create_interleaved_id:
  "QueueController_create_interleaved e (\<lambda>s. s) rnd name project s
     = QueueController_create e rnd name project s"
  by (simp add: QueueController_create_interleaved_def QueueController_create_def)

lemma Catalog_lookup_interleaved_id:
  "Catalog_lookup_interleaved e (\<lambda>s. s) queue project s = Catalog_lookup e queue project s"
  by (simp add: Catalog_lookup_interleaved_def Catalog_lookup_def)

section \<open>Unmapped queues\<close>

text \<open>
  C1, as stated, has \<open>delete\<close> of the sharded ClaimController raise ClaimDoesNotExist
  for a queue with no catalogue entry. The code returns \<^verbatim>\<open>None\<close> there, as the
  \<open>delete\<close> of the queue and message controllers do: on the fresh deployment the call
  returns \<^verbatim>\<open>None\<close> and raises nothing.
\<close>

theorem ClaimController_delete_unmapped_counterexample:
  "catalogue fresh_world (None, ''orders'') = None
   \<and> ClaimController_delete example_env ''orders'' (PStr ''c1'') None fresh_world
       = (Inr PNone, fresh_world)"
  by (simp add: ClaimController_delete_def Catalog_lookup_unmapped fresh_world_def)

text \<open>
  C1, amended. For a queue and project with no catalogue entry, the sharded
  ClaimController returns the empty claim result \<^verbatim>\<open>[None, []]\<close> from \<open>create\<close>,
  raises ClaimDoesNotExist from \<open>get\<close> and \<open>update\<close>, and returns \<^verbatim>\<open>None\<close> from
  \<open>delete\<close>. No state changes.
\<close>

theorem ClaimController_unmapped:
  assumes "catalogue s (project, queue) = None"
  shows "ClaimController_create e queue metadata project limit s
           = (Inr (PList [PNone, PList []]), s)
       \<and> ClaimController_get e queue claim_id project s
           = (Inl (ClaimDoesNotExist claim_id (PStr queue) (py_project project)), s)
       \<and> ClaimController_update e queue claim_id metadata project s
           = (Inl (ClaimDoesNotExist claim_id (PStr queue) (py_project project)), s)
       \<and> ClaimController_delete e queue claim_id project s = (Inr PNone, s)"
  using Catalog_lookup_unmapped [OF assms, of e]
  by (simp add: ClaimController_create_def ClaimController_get_def ClaimController_update_def
      ClaimController_delete_def)

theorem ClaimController_unmapped_witness:
  "catalogue fresh_world (Some ''acme'', ''orders'') = None
   \<and> ClaimController_create example_env ''orders'' PNone (Some ''acme'') (PInt 10) fresh_world
       = (Inr (PList [PNone, PList []]), fresh_world)
   \<and> ClaimController_get example_env ''orders'' (PStr ''c1'') (Some ''acme'') fresh_world
       = (Inl (ClaimDoesNotExist (PStr ''c1'') (PStr ''orders'') (PStr ''acme'')), fresh_world)
   \<and> ClaimController_update example_env ''orders'' (PStr ''c1'') PNone (Some ''acme'') fresh_world
       = (Inl (ClaimDoesNotExist (PStr ''c1'') (PStr ''orders'') (PStr ''acme'')), fresh_world)
   \<and> ClaimController_delete example_env ''orders'' (PStr ''c1'') (Some ''acme'') fresh_world
       = (Inr PNone, fresh_world)"
proof -
  have unmapped: "catalogue fresh_world (Some ''acme'', ''orders'') = None"
    by (simp add: fresh_world_def)
  show ?thesis
    using unmapped
      ClaimController_unmapped [OF unmapped, where e = example_env and metadata = PNone
        and limit = "PInt 10" and claim_id = "PStr ''c1''"]
    by (simp add: py_project_def)
qed

text \<open>
  C6. For a queue and project with no catalogue entry, the sharded MessageController
  raises QueueDoesNotExist from \<open>post\<close> and \<open>get\<close>, returns an iterator over one empty
  page from \<open>list\<close>, returns \<^verbatim>\<open>None\<close> from \<open>delete\<close> and \<open>bulk_delete\<close> and the empty
  list from \<open>bulk_get\<close>. No state changes.
\<close>

theorem MessageController_unmapped:
  assumes "catalogue s (project, queue) = None"
  shows "MessageController_post e queue project messages client_uuid s
           = (Inl (QueueDoesNotExist (py_project project) (PStr queue)), s)
       \<and> MessageController_get e queue message_id project s
           = (Inl (QueueDoesNotExist (py_project project) (PStr queue)), s)
       \<and> MessageController_list e queue project marker limit echo client_uuid include_claimed s
           = (Inr (PIter [PList []]), s)
       \<and> MessageController_delete e queue project message_id claim s = (Inr PNone, s)
       \<and> MessageController_bulk_delete e queue project message_ids s = (Inr PNone, s)
       \<and> MessageController_bulk_get e queue project message_ids s = (Inr (PList []), s)"
  using Catalog_lookup_unmapped [OF assms, of e]
  by (simp add: MessageController_post_def MessageController_get_def MessageController_list_def
      MessageController_delete_def MessageController_bulk_delete_def
      MessageController_bulk_get_def)

theorem MessageController_unmapped_witness:
  "catalogue fresh_world (Some ''acme'', ''orders'') = None
   \<and> MessageController_post example_env ''orders'' (Some ''acme'') (PList []) (PStr ''u'') fresh_world
       = (Inl (QueueDoesNotExist (PStr ''acme'') (PStr ''orders'')), fresh_world)
   \<and> MessageController_get example_env ''orders'' (PStr ''m'') (Some ''acme'') fresh_world
       = (Inl (QueueDoesNotExist (PStr ''acme'') (PStr ''orders'')), fresh_world)
   \<and> MessageController_list example_env ''orders'' (Some ''acme'') PNone (PInt 10) (PBool False)
         (PStr ''u'') (PBool False) fresh_world
       = (Inr (PIter [PList []]), fresh_world)
   \<and> MessageController_delete example_env ''orders'' (Some ''acme'') (PStr ''m'') PNone fresh_world
       = (Inr PNone, fresh_world)
   \<and> MessageController_bulk_delete example_env ''orders'' (Some ''acme'') (PList []) fresh_world
       = (Inr PNone, fresh_world)
   \<and> MessageController_bulk_get example_env ''orders'' (Some ''acme'') (PList []) fresh_world
       = (Inr (PList []), fresh_world)"
proof -
  have unmapped: "catalogue fresh_world (Some ''acme'', ''orders'') = None"
    by (simp add: fresh_world_def)
  show ?thesis
    using unmapped
      MessageController_unmapped [OF unmapped, where e = example_env and messages = "PList []"
        and client_uuid = "PStr ''u''" and message_id = "PStr ''m''" and marker = PNone
        and limit = "PInt 10" and echo = "PBool False" and include_claimed = "PBool False"
        and claim = PNone and message_ids = "PList []"]
    by (simp add: py_project_def)
qed

section \<open>Registration\<close>

text \<open>
  C2. \<open>Catalog.register\<close> is idempotent. When an entry exists for \<open>(project, queue)\<close>
  the call returns with the whole state unchanged, whatever the shard store holds and
  whatever the selector would draw: nothing is selected and nothing inserted. So a
  second \<open>register\<close> after a successful first leaves the state the first produced.
\<close>

theorem Catalog_register_idempotent:
  "(catalogue s (project, queue) \<noteq> None \<longrightarrow> Catalog_register rnd queue project s = (Inr (), s))
   \<and> (Catalog_register rnd queue project s = (Inr (), s')
        \<longrightarrow> Catalog_register rnd' queue project s' = (Inr (), s'))"
  using Catalog_register_mapped Catalog_register_maps by blast

theorem Catalog_register_idempotent_witness:
  "catalogue orders_world (None, ''orders'') \<noteq> None
   \<and> Catalog_register 7 ''orders'' None orders_world = (Inr (), orders_world)
   \<and> Catalog_register 7 ''billing'' None orders_world = (Inr (), billing_world)
   \<and> Catalog_register 3 ''billing'' None billing_world = (Inr (), billing_world)"
proof -
  have mapped: "catalogue orders_world (None, ''orders'') \<noteq> None"
    by (simp add: orders_world_def)
  show ?thesis
    using mapped billing_register
      Catalog_register_idempotent [where s = orders_world and project = None
        and queue = "''orders''" and rnd = 7]
      Catalog_register_idempotent [where s = orders_world and project = None
        and queue = "''billing''" and rnd = 7 and s' = billing_world and rnd' = 3]
    by simp
qed

text \<open>
  C3, as stated, has \<open>QueueController.create\<close> fail with NoShardFound for every queue
  and project once the shard store is empty. \<open>register\<close> returns at once for a queue
  that is already mapped, so the selector is never asked: in \<open>stale_world\<close> the shard
  store is empty, the queue \<^verbatim>\<open>orders\<close> is still mapped and its driver cached, and
  \<open>create\<close> forwards to the backend and succeeds.
\<close>

theorem QueueController_create_stale_mapping_counterexample:
  "shards stale_world = []
   \<and> QueueController_create example_env 0 ''orders'' None stale_world = (Inr PNone, stale_world)"
  by (simp add: stale_world_def cached_world_eq QueueController_create_def Catalog_register_def
      catalogue_exists_def QueueController_create_lookup_def Catalog_lookup_def catalogue_get_def
      call_backend_def shards_delete_def example_env_def)

text \<open>
  C3, amended. For a queue and project with no catalogue entry yet, if the Weighted
  Selector yields none, as it does when the shard store contains no shard,
  \<open>QueueController.create\<close> fails with NoShardFound and the state, the catalogue with
  it, is left as it was: no entry is inserted.
\<close>

theorem QueueController_create_no_shard:
  assumes "catalogue s (project, name) = None"
  shows "(weighted rnd (shards_list (shards s)) = None \<longrightarrow>
            QueueController_create e rnd name project s = (Inl NoShardFound, s))
       \<and> (shards s = [] \<longrightarrow>
            QueueController_create e rnd name project s = (Inl NoShardFound, s))"
proof (intro conjI impI)
  assume "weighted rnd (shards_list (shards s)) = None"
  with assms show "QueueController_create e rnd name project s = (Inl NoShardFound, s)"
    by (simp add: QueueController_create_def Catalog_register_def catalogue_exists_def)
next
  assume "shards s = []"
  then have "weighted rnd (shards_list (shards s)) = None"
    by (simp add: weighted_def shards_list_def)
  with assms show "QueueController_create e rnd name project s = (Inl NoShardFound, s)"
    by (simp add: QueueController_create_def Catalog_register_def catalogue_exists_def)
qed

theorem QueueController_create_no_shard_witness:
  "catalogue fresh_world (None, ''q'') = None \<and> shards fresh_world = []
   \<and> weighted 0 (shards_list (shards fresh_world)) = None
   \<and> QueueController_create example_env 0 ''q'' None fresh_world = (Inl NoShardFound, fresh_world)"
proof -
  have unmapped: "catalogue fresh_world (None, ''q'') = None"
    and empty: "shards fresh_world = []"
    and none: "weighted 0 (shards_list (shards fresh_world)) = None"
    by (simp_all add: fresh_world_def weighted_def shards_list_def)
  show ?thesis
    using unmapped empty none
      QueueController_create_no_shard [OF unmapped, of 0 example_env]
    by simp
qed

text \<open>
  C10. After \<open>register\<close> has succeeded inside \<open>QueueController.create\<close>, the entry for
  \<open>(project, queue)\<close> exists, so the lookup that follows does not return \<^verbatim>\<open>None\<close>:
  \<open>create\<close> passes its assertion and returns what the forwarded backend \<open>create\<close>
  returns, or raises the error of the lookup when the driver cannot be built. The same
  holds when other requests run between \<open>register\<close> and the lookup, as long as they
  leave the entry in place. If they remove it, \<open>create\<close> fails with the bare
  AssertionError \<^verbatim>\<open>Failed to register queue\<close>.
\<close>

theorem QueueController_create_assertion:
  assumes "Catalog_register rnd name project s = (Inr (), s1)"
  shows "fst (Catalog_lookup e name project s1) \<noteq> Inr None
       \<and> (Catalog_lookup e name project s1 = (Inl err, t) \<longrightarrow>
            QueueController_create e rnd name project s = (Inl err, t))
       \<and> (Catalog_lookup e name project s1 = (Inr (Some target), t) \<longrightarrow>
            QueueController_create e rnd name project s
              = (case invoke e target Queue ''create'' [PStr name, py_project project] []
                        (backend t) of
                   (res, b) \<Rightarrow> (res, t\<lparr>backend := b\<rparr>)))
       \<and> (catalogue (other s1) (project, name) \<noteq> None \<longrightarrow>
            fst (Catalog_lookup e name project (other s1)) \<noteq> Inr None)
       \<and> (Catalog_lookup e name project (other s1) = (Inl oerr, u) \<longrightarrow>
            QueueController_create_interleaved e other rnd name project s = (Inl oerr, u))
       \<and> (Catalog_lookup e name project (other s1) = (Inr (Some otarget), u) \<longrightarrow>
            QueueController_create_interleaved e other rnd name project s
              = (case invoke e otarget Queue ''create'' [PStr name, py_project project] []
                        (backend u) of
                   (res, b) \<Rightarrow> (res, u\<lparr>backend := b\<rparr>)))
       \<and> (catalogue (other s1) (project, name) = None \<longrightarrow>
            QueueController_create_interleaved e other rnd name project s
              = (Inl (AssertionError ''Failed to register queue''), other s1))"
proof (intro conjI impI)
  have "catalogue s1 (project, name) \<noteq> None"
    using assms by (rule Catalog_register_maps)
  then show "fst (Catalog_lookup e name project s1) \<noteq> Inr None"
    by (rule Catalog_lookup_mapped_not_None)
next
  assume "Catalog_lookup e name project s1 = (Inl err, t)"
  then show "QueueController_create e rnd name project s = (Inl err, t)"
    using assms by (simp add: QueueController_create_def QueueController_create_lookup_def)
next
  assume "Catalog_lookup e name project s1 = (Inr (Some target), t)"
  then show "QueueController_create e rnd name project s
      = (case invoke e target Queue ''create'' [PStr name, py_project project] [] (backend t) of
           (res, b) \<Rightarrow> (res, t\<lparr>backend := b\<rparr>))"
    using assms
    by (simp add: QueueController_create_def QueueController_create_lookup_def call_backend_def)
next
  assume "catalogue (other s1) (project, name) \<noteq> None"
  then show "fst (Catalog_lookup e name project (other s1)) \<noteq> Inr None"
    by (rule Catalog_lookup_mapped_not_None)
next
  assume "Catalog_lookup e name project (other s1) = (Inl oerr, u)"
  then show "QueueController_create_interleaved e other rnd name project s = (Inl oerr, u)"
    using assms
    by (simp add: QueueController_create_interleaved_def QueueController_create_lookup_def)
next
  assume "Catalog_lookup e name project (other s1) = (Inr (Some otarget), u)"
  then show "QueueController_create_interleaved e other rnd name project s
      = (case invoke e otarget Queue ''create'' [PStr name, py_project project] [] (backend u) of
           (res, b) \<Rightarrow> (res, u\<lparr>backend := b\<rparr>))"
    using assms
    by (simp add: QueueController_create_interleaved_def QueueController_create_lookup_def
        call_backend_def)
next
  assume gone: "catalogue (other s1) (project, name) = None"
  show "QueueController_create_interleaved e other rnd name project s
      = (Inl (AssertionError ''Failed to register queue''), other s1)"
    using assms Catalog_lookup_unmapped [OF gone, of e]
    by (simp add: QueueController_create_interleaved_def QueueController_create_lookup_def)
qed

theorem QueueController_create_assertion_witness:
  "Catalog_register 7 ''billing'' None orders_world = (Inr (), billing_world)
   \<and> fst (Catalog_lookup example_env ''billing'' None billing_world) \<noteq> Inr None
   \<and> QueueController_create example_env 7 ''billing'' None orders_world
       = (Inr PNone, billing_world\<lparr>drivers := [''s1'' \<mapsto> s1_driver 0], built := 1\<rparr>)
   \<and> QueueController_create example_env 7 ''orders'' None (orders_world\<lparr>shards := []\<rparr>)
       = (Inl (NotFound ''s1''), orders_world\<lparr>shards := []\<rparr>)
   \<and> catalogue (concurrent_lookup example_env ''orders'' None billing_world) (None, ''billing'')
       \<noteq> None
   \<and> QueueController_create_interleaved example_env (concurrent_lookup example_env ''orders'' None)
        7 ''billing'' None orders_world
       = (Inr PNone, billing_world\<lparr>drivers := [''s1'' \<mapsto> s1_driver 0], built := 1\<rparr>)
   \<and> QueueController_create_interleaved example_env (\<lambda>w. w) 7 ''orders'' None
        (orders_world\<lparr>shards := []\<rparr>)
       = (Inl (NotFound ''s1''), orders_world\<lparr>shards := []\<rparr>)
   \<and> catalogue (concurrent_deregister ''billing'' None billing_world) (None, ''billing'') = None
   \<and> QueueController_create_interleaved example_env (concurrent_deregister ''billing'' None) 7
        ''billing'' None orders_world
       = (Inl (AssertionError ''Failed to register queue''),
          concurrent_deregister ''billing'' None billing_world)"
proof -
  let ?built = "billing_world\<lparr>drivers := [''s1'' \<mapsto> s1_driver 0], built := 1\<rparr>"
  let ?orphan = "orders_world\<lparr>shards := []\<rparr>"
  have backend: "backend billing_world = True"
    by (simp add: billing_world_def orders_world_def)
  have kept:
    "catalogue (concurrent_lookup example_env ''orders'' None billing_world) (None, ''billing'')
       \<noteq> None"
    unfolding billing_after_orders_lookup by (simp add: billing_world_def)
  have removed:
    "catalogue (concurrent_deregister ''billing'' None billing_world) (None, ''billing'') = None"
    by (simp add: concurrent_deregister_def Catalog_deregister_def catalogue_delete_def)
  have seq: "fst (Catalog_lookup example_env ''billing'' None billing_world) \<noteq> Inr None"
    and forwarded: "QueueController_create example_env 7 ''billing'' None orders_world
       = (Inr PNone, ?built)"
    using billing_lookup backend
      QueueController_create_assertion [OF billing_register, where e = example_env
        and target = "s1_driver 0" and t = ?built]
    by (simp_all add: example_invoke)
  have raised: "QueueController_create example_env 7 ''orders'' None ?orphan
       = (Inl (NotFound ''s1''), ?orphan)"
    using orphan_lookup
      QueueController_create_assertion [OF orphan_register, where e = example_env
        and err = "NotFound ''s1''" and t = ?orphan]
    by simp
  have oforwarded: "QueueController_create_interleaved example_env
        (concurrent_lookup example_env ''orders'' None) 7 ''billing'' None orders_world
       = (Inr PNone, ?built)"
    using billing_lookup_cached backend kept
      QueueController_create_assertion [OF billing_register, where e = example_env
        and other = "concurrent_lookup example_env ''orders'' None"
        and otarget = "s1_driver 0" and u = ?built]
    by (simp add: example_invoke billing_after_orders_lookup)
  have oraised: "QueueController_create_interleaved example_env (\<lambda>w. w) 7 ''orders'' None ?orphan
       = (Inl (NotFound ''s1''), ?orphan)"
    using orphan_lookup
      QueueController_create_assertion [OF orphan_register, where e = example_env
        and other = "\<lambda>w. w" and oerr = "NotFound ''s1''" and u = ?orphan]
    by simp
  have gone: "QueueController_create_interleaved example_env (concurrent_deregister ''billing'' None) 7
        ''billing'' None orders_world
       = (Inl (AssertionError ''Failed to register queue''),
          concurrent_deregister ''billing'' None billing_world)"
    using removed
      QueueController_create_assertion [OF billing_register, where e = example_env
        and other = "concurrent_deregister ''billing'' None"]
    by simp
  show ?thesis
    using billing_register seq forwarded raised kept oforwarded oraised removed gone
    by simp
qed

section \<open>Deregistration and deletion\<close>

text \<open>
  C4. \<open>Catalog.deregister\<close> never fails and removes the entry of \<open>(project, queue)\<close>
  whether or not there was one; a lookup of the same \<open>(project, queue)\<close> after it yields
  \<^verbatim>\<open>None\<close>; a second \<open>deregister\<close> succeeds and changes nothing.
\<close>

theorem Catalog_deregister_lookup:
  "fst (Catalog_deregister queue project s) = Inr ()
   \<and> catalogue (snd (Catalog_deregister queue project s)) = (catalogue s)((project, queue) := None)
   \<and> Catalog_lookup e queue project (snd (Catalog_deregister queue project s))
       = (Inr None, snd (Catalog_deregister queue project s))
   \<and> Catalog_deregister queue project (snd (Catalog_deregister queue project s))
       = (Inr (), snd (Catalog_deregister queue project s))"
  by (simp add: Catalog_deregister_def catalogue_delete_def Catalog_lookup_unmapped)

lemma QueueController_delete_error:
  assumes "QueueController_delete e name project s = (Inl err, s')"
  shows "catalogue s' = catalogue s"
proof -
  obtain r t where l: "Catalog_lookup e name project s = (r, t)"
    by (cases "Catalog_lookup e name project s")
  have "catalogue t = catalogue s"
    using l by (rule Catalog_lookup_catalogue)
  then show ?thesis
    using assms l
    by (auto simp: QueueController_delete_def call_backend_def Catalog_deregister_def
        split: sum.splits option.splits prod.splits)
qed

text \<open>
  C5. For a mapped queue the lookup in \<open>QueueController.delete\<close> never yields
  \<^verbatim>\<open>None\<close>. If the lookup raises (the driver of the shard cannot be built), \<open>delete\<close>
  raises that error, calls no backend and leaves the catalogue as it was. Otherwise
  \<open>delete\<close> first calls \<open>delete\<close> on the queue controller of the driver of the owning
  shard. If that call raises, \<open>delete\<close> raises the same error and the catalogue is as
  before; only if it returns is the entry of \<open>(project, queue)\<close> removed, and the
  backend's result returned. Whenever \<open>delete\<close> raises, the catalogue is unchanged.
  (The lookup may have added the driver to the cache.)
\<close>

theorem QueueController_delete_mapped:
  assumes "catalogue s (project, name) = Some sid"
  shows "fst (Catalog_lookup e name project s) \<noteq> Inr None
       \<and> (Catalog_lookup e name project s = (Inl lerr, u) \<longrightarrow>
            QueueController_delete e name project s = (Inl lerr, u)
            \<and> catalogue u = catalogue s)
       \<and> (QueueController_delete e name project s = (Inl err, s') \<longrightarrow> catalogue s' = catalogue s)
       \<and> (Catalog_lookup e name project s = (Inr (Some target), t) \<longrightarrow>
            drivers t sid = Some target
            \<and> (case invoke e target Queue ''delete'' [PStr name, py_project project] []
                       (backend t) of
                 (Inl err', b) \<Rightarrow>
                   QueueController_delete e name project s = (Inl err', t\<lparr>backend := b\<rparr>)
               | (Inr ret, b) \<Rightarrow>
                   QueueController_delete e name project s
                     = (Inr ret,
                        t\<lparr>backend := b, catalogue := (catalogue s)((project, name) := None)\<rparr>)))"
proof (intro conjI impI)
  show "fst (Catalog_lookup e name project s) \<noteq> Inr None"
    using assms by (simp add: Catalog_lookup_mapped_not_None)
next
  assume l: "Catalog_lookup e name project s = (Inl lerr, u)"
  then show "QueueController_delete e name project s = (Inl lerr, u)"
    by (simp add: QueueController_delete_def)
  show "catalogue u = catalogue s"
    using l by (rule Catalog_lookup_catalogue)
next
  assume "QueueController_delete e name project s = (Inl err, s')"
  then show "catalogue s' = catalogue s"
    by (rule QueueController_delete_error)
next
  assume l: "Catalog_lookup e name project s = (Inr (Some target), t)"
  with assms show "drivers t sid = Some target"
    by (rule Catalog_lookup_mapped_target)
  have "catalogue t = catalogue s"
    using l by (rule Catalog_lookup_catalogue)
  then show "case invoke e target Queue ''delete'' [PStr name, py_project project] []
                       (backend t) of
                 (Inl err', b) \<Rightarrow>
                   QueueController_delete e name project s = (Inl err', t\<lparr>backend := b\<rparr>)
               | (Inr ret, b) \<Rightarrow>
                   QueueController_delete e name project s
                     = (Inr ret,
                        t\<lparr>backend := b, catalogue := (catalogue s)((project, name) := None)\<rparr>)"
    using l
    by (simp add: QueueController_delete_def call_backend_def Catalog_deregister_def
        catalogue_delete_def split: prod.splits sum.splits)
qed

theorem QueueController_delete_mapped_witness:
  "QueueController_delete example_env ''orders'' None orders_world
     = (Inr PNone, cached_world\<lparr>catalogue := Map.empty\<rparr>)
   \<and> QueueController_delete example_env ''orders'' None (orders_world\<lparr>backend := False\<rparr>)
     = (Inl (BackendError ''unavailable''), cached_world\<lparr>backend := False\<rparr>)
   \<and> catalogue (cached_world\<lparr>backend := False\<rparr>) = catalogue (orders_world\<lparr>backend := False\<rparr>)
   \<and> catalogue (cached_world\<lparr>backend := False\<rparr>) (None, ''orders'') = Some ''s1''
   \<and> fst (Catalog_lookup example_env ''orders'' None orders_world) \<noteq> Inr None
   \<and> QueueController_delete example_env ''orders'' None (orders_world\<lparr>shards := []\<rparr>)
     = (Inl (NotFound ''s1''), orders_world\<lparr>shards := []\<rparr>)
   \<and> catalogue (orders_world\<lparr>shards := []\<rparr>) (None, ''orders'') = Some ''s1''"
proof -
  have mapped: "catalogue orders_world (None, ''orders'') = Some ''s1''"
    by (simp add: orders_world_def)
  have mapped': "catalogue (orders_world\<lparr>backend := False\<rparr>) (None, ''orders'') = Some ''s1''"
    by (simp add: orders_world_def)
  have mapped'': "catalogue (orders_world\<lparr>shards := []\<rparr>) (None, ''orders'') = Some ''s1''"
    by (simp add: orders_world_def)
  have lookup': "Catalog_lookup example_env ''orders'' None (orders_world\<lparr>backend := False\<rparr>)
      = (Inr (Some (s1_driver 0)), cached_world\<lparr>backend := False\<rparr>)"
    by (simp add: cached_world_eq Catalog_lookup_def catalogue_get_def orders_world_def
      Catalog_init_driver_def shards_get_def load_storage_driver_def example_env_def Let_def
      s1_driver_def)
  have some: "fst (Catalog_lookup example_env ''orders'' None orders_world) \<noteq> Inr None"
    using QueueController_delete_mapped [OF mapped, where e = example_env]
    by simp
  have ok: "QueueController_delete example_env ''orders'' None orders_world
     = (Inr PNone, cached_world\<lparr>catalogue := Map.empty\<rparr>)"
    using orders_lookup
      QueueController_delete_mapped [OF mapped, where e = example_env
        and target = "s1_driver 0" and t = cached_world]
    by (simp add: example_invoke cached_world_eq orders_world_def)
  have raised: "QueueController_delete example_env ''orders'' None (orders_world\<lparr>backend := False\<rparr>)
     = (Inl (BackendError ''unavailable''), cached_world\<lparr>backend := False\<rparr>)"
    using lookup'
      QueueController_delete_mapped [OF mapped', where e = example_env
        and target = "s1_driver 0" and t = "cached_world\<lparr>backend := False\<rparr>"]
    by (simp add: example_invoke cached_world_eq orders_world_def)
  have kept: "catalogue (cached_world\<lparr>backend := False\<rparr>)
      = catalogue (orders_world\<lparr>backend := False\<rparr>)"
    using raised
      QueueController_delete_mapped [OF mapped', where e = example_env
        and err = "BackendError ''unavailable''" and s' = "cached_world\<lparr>backend := False\<rparr>"]
    by simp
  have unresolved: "QueueController_delete example_env ''orders'' None (orders_world\<lparr>shards := []\<rparr>)
     = (Inl (NotFound ''s1''), orders_world\<lparr>shards := []\<rparr>)"
    using orphan_lookup
      QueueController_delete_mapped [OF mapped'', where e = example_env
        and lerr = "NotFound ''s1''" and u = "orders_world\<lparr>shards := []\<rparr>"]
    by simp
  show ?thesis
    using ok raised kept mapped' some unresolved mapped'' by simp
qed

section \<open>The driver cache\<close>

text \<open>
  C8. The driver cache is never checked against the shard store. Take a queue mapped
  to a shard and delete that shard's record from the shard store: if a driver for the
  shard is cached, the lookup returns it; if none is cached, the lookup fails with
  NotFound, raised where \<open>_init_driver\<close> fetches the shard record.
\<close>

theorem Catalog_lookup_no_revalidation:
  assumes "catalogue s (project, queue) = Some sid"
  shows "(drivers s sid = Some d \<longrightarrow>
            Catalog_lookup e queue project (s\<lparr>shards := shards_delete (shards s) sid\<rparr>)
              = (Inr (Some d), s\<lparr>shards := shards_delete (shards s) sid\<rparr>))
       \<and> (drivers s sid = None \<longrightarrow>
            Catalog_lookup e queue project (s\<lparr>shards := shards_delete (shards s) sid\<rparr>)
              = (Inl (NotFound sid), s\<lparr>shards := shards_delete (shards s) sid\<rparr>))"
  using assms
  by (simp add: Catalog_lookup_def catalogue_get_def Catalog_init_driver_def shards_get_def
      find_shards_delete)

theorem Catalog_lookup_no_revalidation_witness:
  "Catalog_lookup example_env ''orders'' None stale_world = (Inr (Some (s1_driver 0)), stale_world)
   \<and> Catalog_lookup example_env ''orders'' None (orders_world\<lparr>shards := []\<rparr>)
       = (Inl (NotFound ''s1''), orders_world\<lparr>shards := []\<rparr>)"
proof -
  have mapped: "catalogue cached_world (None, ''orders'') = Some ''s1''"
    and cached: "drivers cached_world ''s1'' = Some (s1_driver 0)"
    by (simp_all add: cached_world_eq s1_driver_def)
  have mapped': "catalogue orders_world (None, ''orders'') = Some ''s1''"
    and uncached: "drivers orders_world ''s1'' = None"
    and deleted: "shards_delete (shards orders_world) ''s1'' = []"
    by (simp_all add: orders_world_def shards_delete_def)
  show ?thesis
    using cached uncached deleted
      Catalog_lookup_no_revalidation [OF mapped, of "s1_driver 0" example_env]
      Catalog_lookup_no_revalidation [OF mapped', of "s1_driver 0" example_env]
    by (simp add: stale_world_def)
qed

lemma lookups_cached:
  "\<forall>(queue, project) \<in> set callers. catalogue s (project, queue) = Some sid
   \<Longrightarrow> drivers s sid = Some d
   \<Longrightarrow> lookups e callers s = (map (\<lambda>c. Inr (Some d)) callers, s)"
  by (induction callers) (auto simp: Catalog_lookup_cached)

text \<open>
  C9, as stated, has exactly one driver built under concurrent first use of one shard
  id. \<open>Catalog.lookup\<close> takes no lock between the \<^verbatim>\<open>KeyError\<close> and the store into the
  cache. Two callers look up \<^verbatim>\<open>orders\<close> in \<open>orders_world\<close>, where no driver is cached:
  the second caller's whole lookup runs after the first caller's \<^verbatim>\<open>KeyError\<close>. The
  second caller gets driver object 0, the first builds and gets driver object 1, and
  two driver objects have been constructed for the shard \<^verbatim>\<open>s1\<close>.
\<close>

theorem Catalog_lookup_race_counterexample:
  "fst (Catalog_lookup example_env ''orders'' None orders_world) = Inr (Some (s1_driver 0))
   \<and> fst (Catalog_lookup_interleaved example_env (concurrent_lookup example_env ''orders'' None)
            ''orders'' None orders_world) = Inr (Some (s1_driver 1))
   \<and> built (snd (Catalog_lookup_interleaved example_env
                    (concurrent_lookup example_env ''orders'' None)
                    ''orders'' None orders_world)) = 2
   \<and> s1_driver 0 \<noteq> s1_driver 1"
  by (simp add: Catalog_lookup_interleaved_def concurrent_lookup_def Catalog_lookup_def
      catalogue_get_def orders_world_def Catalog_init_driver_def shards_get_def
      load_storage_driver_def example_env_def Let_def s1_driver_def)

text \<open>
  C9, amended. When the first-use lookups of N callers for the same shard id run one
  after another and the driver can be built, exactly one driver object is
  constructed, it is the one the cache holds for the shard id, and all N callers get
  that same object.
\<close>

theorem lookups_build_once:
  assumes "callers \<noteq> []"
    and "\<forall>(queue, project) \<in> set callers. catalogue s (project, queue) = Some sid"
    and "drivers s sid = None"
    and "Catalog_init_driver e sid s = (Inr d, s1)"
  shows "lookups e callers s
           = (map (\<lambda>c. Inr (Some d)) callers, s1\<lparr>drivers := (drivers s1)(sid \<mapsto> d)\<rparr>)
       \<and> built (s1\<lparr>drivers := (drivers s1)(sid \<mapsto> d)\<rparr>) = Suc (built s)"
proof -
  obtain queue project rest where callers: "callers = (queue, project) # rest"
    using assms(1) by (cases callers) auto
  let ?s2 = "s1\<lparr>drivers := (drivers s1)(sid \<mapsto> d)\<rparr>"
  have frame: "s1 = s\<lparr>built := Suc (built s)\<rparr>"
    using assms(4) by (rule Catalog_init_driver_frame)
  have mapped: "catalogue s (project, queue) = Some sid"
    using assms(2) callers by simp
  have first: "Catalog_lookup e queue project s = (Inr (Some d), ?s2)"
    using mapped assms(3,4) by (simp add: Catalog_lookup_def catalogue_get_def)
  have "\<forall>(queue, project) \<in> set rest. catalogue ?s2 (project, queue) = Some sid"
    using assms(2) callers frame by auto
  moreover have "drivers ?s2 sid = Some d"
    by simp
  ultimately have "lookups e rest ?s2 = (map (\<lambda>c. Inr (Some d)) rest, ?s2)"
    by (rule lookups_cached)
  then show ?thesis
    using first callers frame by simp
qed

theorem lookups_build_once_witness:
  "lookups example_env [(''orders'', None), (''orders'', None), (''orders'', None)] orders_world
     = ([Inr (Some (s1_driver 0)), Inr (Some (s1_driver 0)), Inr (Some (s1_driver 0))],
        cached_world)
   \<and> built cached_world = Suc (built orders_world)"
proof -
  have callers: "[(''orders'', None), (''orders'', None), (''orders'', None)] \<noteq> ([] :: (queue \<times> project) list)"
    by simp
  have mapped: "\<forall>(queue, project) \<in> set [(''orders'', None), (''orders'', None), (''orders'', None)].
      catalogue orders_world (project, queue) = Some ''s1''"
    by (simp add: orders_world_def)
  have first: "drivers orders_world ''s1'' = None"
    by (simp add: orders_world_def)
  have init: "Catalog_init_driver example_env ''s1'' orders_world
      = (Inr (s1_driver 0), orders_world\<lparr>built := 1\<rparr>)"
    by (simp add: orders_world_def Catalog_init_driver_def shards_get_def load_storage_driver_def
        example_env_def Let_def s1_driver_def)
  show ?thesis
    using lookups_build_once [OF callers mapped first init]
    by (simp add: cached_world_unfold orders_world_def)
qed

section \<open>Updating a partition\<close>

lemma in_update_fields:
  "(k, v) \<in> set (update_fields kwargs) \<longleftrightarrow>
     v \<noteq> PNone \<and> (k = ''h'' \<and> (''hosts'', v) \<in> set kwargs \<or> k = ''w'' \<and> (''weight'', v) \<in> set kwargs)"
  by (force simp: update_fields_def)

lemma distinct_update_fields:
  "distinct (map fst kwargs) \<Longrightarrow> distinct (map fst (update_fields kwargs))"
proof (induction kwargs)
  case Nil
  then show ?case by (simp add: update_fields_def)
next
  case (Cons a kwargs)
  obtain k v where a: "a = (k, v)" by (cases a)
  have IH: "distinct (map fst (update_fields kwargs))"
    using Cons by simp
  have notin: "k \<notin> fst ` set kwargs"
    using Cons.prems a by simp
  show ?case
  proof (cases "k \<in> set [''hosts'', ''weight''] \<and> v \<noteq> PNone")
    case False
    then have "update_fields (a # kwargs) = update_fields kwargs"
      by (auto simp: update_fields_def a)
    with IH show ?thesis by simp
  next
    case True
    then have eq: "update_fields (a # kwargs) = ([hd k], v) # update_fields kwargs"
      by (auto simp: update_fields_def a)
    have "[hd k] \<notin> fst ` set (update_fields kwargs)"
    proof
      assume "[hd k] \<in> fst ` set (update_fields kwargs)"
      then obtain v' where "([hd k], v') \<in> set (update_fields kwargs)"
        by auto
      then have "(k, v') \<in> set kwargs"
        using True by (auto simp: in_update_fields)
      then show False
        using notin by force
    qed
    with IH eq show ?thesis by simp
  qed
qed

lemma map_of_update_fields:
  assumes "distinct (map fst kwargs)"
  shows "map_of (update_fields kwargs) k =
     (if k = ''h'' \<and> kwarg kwargs ''hosts'' \<noteq> PNone then Some (kwarg kwargs ''hosts'')
      else if k = ''w'' \<and> kwarg kwargs ''weight'' \<noteq> PNone then Some (kwarg kwargs ''weight'')
      else None)"
proof -
  have d: "distinct (map fst (update_fields kwargs))"
    using assms by (rule distinct_update_fields)
  have some: "map_of (update_fields kwargs) k = Some v \<longleftrightarrow>
      v \<noteq> PNone \<and> (k = ''h'' \<and> map_of kwargs ''hosts'' = Some v \<or> k = ''w'' \<and> map_of kwargs ''weight'' = Some v)" for v
    using d assms by (simp add: in_update_fields)
  show ?thesis
  proof (cases "map_of (update_fields kwargs) k")
    case None
    then have "\<And>v. \<not> (v \<noteq> PNone \<and> (k = ''h'' \<and> map_of kwargs ''hosts'' = Some v \<or> k = ''w'' \<and> map_of kwargs ''weight'' = Some v))"
      using some by simp
    then show ?thesis
      using None by (auto simp: kwarg_def split: option.splits)
  next
    case (Some v)
    then show ?thesis
      using some [of v] by (auto simp: kwarg_def)
  qed
qed

lemma update_fields_empty:
  assumes "distinct (map fst kwargs)"
  shows "update_fields kwargs = [] \<longleftrightarrow> kwarg kwargs ''hosts'' = PNone \<and> kwarg kwargs ''weight'' = PNone"
proof
  assume "update_fields kwargs = []"
  then have "map_of (update_fields kwargs) ''h'' = None" "map_of (update_fields kwargs) ''w'' = None"
    by simp_all
  then show "kwarg kwargs ''hosts'' = PNone \<and> kwarg kwargs ''weight'' = PNone"
    using map_of_update_fields [OF assms] by (auto split: if_splits)
next
  assume a: "kwarg kwargs ''hosts'' = PNone \<and> kwarg kwargs ''weight'' = PNone"
  have "map_of (update_fields kwargs) k = None" for k
    using a by (simp add: map_of_update_fields [OF assms])
  then have "fst ` set (update_fields kwargs) = {}"
    by (metis map_of_eq_None_iff all_not_in_conv)
  then show "update_fields kwargs = []"
    by simp
qed

lemma map_of_set_fields:
  "distinct (map fst flds) \<Longrightarrow>
   map_of (set_fields flds d) k = (case map_of flds k of Some v \<Rightarrow> Some v | None \<Rightarrow> map_of d k)"
proof (induction flds arbitrary: d)
  case Nil
  then show ?case by (simp add: set_fields_def)
next
  case (Cons a flds)
  obtain k0 v0 where a: "a = (k0, v0)" by (cases a)
  have step: "set_fields ((k0, v0) # flds) d = set_fields flds (AList.update k0 v0 d)"
    by (simp add: set_fields_def)
  have notin: "map_of flds k0 = None"
    using Cons.prems a by (simp add: map_of_eq_None_iff)
  have "distinct (map fst flds)"
    using Cons.prems by simp
  then have "map_of (set_fields flds (AList.update k0 v0 d)) k =
      (case map_of flds k of Some v \<Rightarrow> Some v | None \<Rightarrow> map_of (AList.update k0 v0 d) k)"
    by (rule Cons.IH)
  then show ?case
    using notin by (simp add: step a update_conv' split: option.splits)
qed

lemma doc_matches_set_fields:
  "distinct (map fst flds) \<Longrightarrow> map_of flds ''n'' = None
   \<Longrightarrow> doc_matches n (set_fields flds d) = doc_matches n d"
  by (simp add: doc_matches_def map_of_set_fields)

lemma update_first_None:
  "update_first p f col = None \<longleftrightarrow> find p col = None"
  by (induction col) auto

lemma update_first_find_same:
  "update_first p f col = Some col' \<Longrightarrow> (\<And>x. p (f x) = p x) \<Longrightarrow> find p col = Some d
   \<Longrightarrow> find p col' = Some (f d)"
  by (induction col arbitrary: col') (auto split: if_splits)

lemma update_first_find_other:
  "update_first p f col = Some col' \<Longrightarrow> (\<And>x. q (f x) = q x) \<Longrightarrow> (\<And>x. q x \<Longrightarrow> \<not> p x)
   \<Longrightarrow> find q col' = find q col"
  by (induction col arbitrary: col') (auto split: if_splits)

lemma normalize_entry_set_fields:
  assumes "distinct (map fst kwargs)" and "normalize_entry d = Inr p"
  shows "normalize_entry (set_fields (update_fields kwargs) d) =
     Inr (p\<lparr>part_hosts := (if kwarg kwargs ''hosts'' \<noteq> PNone then kwarg kwargs ''hosts''
                             else part_hosts p),
            part_weight := (if kwarg kwargs ''weight'' \<noteq> PNone then kwarg kwargs ''weight''
                             else part_weight p)\<rparr>)"
  using assms(2)
  by (auto simp: normalize_entry_def map_of_set_fields distinct_update_fields [OF assms(1)]
      map_of_update_fields [OF assms(1)] split: option.splits)

lemma PartitionsController_update_no_fields:
  "update_fields kwargs = [] \<Longrightarrow>
   PartitionsController_update name kwargs col
     = (Inl (AssertionError ''`hosts` or `weight` not found in kwargs''), col)"
  by (simp add: PartitionsController_update_def)

lemma PartitionsController_update_missing:
  "update_fields kwargs \<noteq> [] \<Longrightarrow> \<not> PartitionsController_exists name col \<Longrightarrow>
   PartitionsController_update name kwargs col = (Inl (PartitionNotFound name), col)"
  by (auto simp: PartitionsController_update_def PartitionsController_exists_def col_update_def
      update_first_None Let_def split: option.splits)

lemma PartitionsController_update_found:
  assumes "update_fields kwargs \<noteq> []" and "PartitionsController_exists name col"
  shows "\<exists>col'. update_first (doc_matches name) (set_fields (update_fields kwargs)) col = Some col'
           \<and> PartitionsController_update name kwargs col = (Inr (), col')"
proof -
  have "find (doc_matches name) col \<noteq> None"
    using assms(2) by (simp add: PartitionsController_exists_def split: option.splits)
  then obtain col' where
    "update_first (doc_matches name) (set_fields (update_fields kwargs)) col = Some col'"
    using update_first_None [of "doc_matches name" "set_fields (update_fields kwargs)" col]
    by auto
  then show ?thesis
    using assms(1) by (simp add: PartitionsController_update_def col_update_def Let_def)
qed

text \<open>
  C7. \<open>PartitionsController.update\<close>, for keyword arguments \<open>kwargs\<close> (a dict, so
  with distinct keys), where a keyword counts as supplied when it is passed with a value
  other than \<^verbatim>\<open>None\<close>: with neither \<^verbatim>\<open>hosts\<close> nor \<^verbatim>\<open>weight\<close> supplied it fails
  with the AssertionError; with one of them supplied and no record of that name it
  fails with PartitionNotFound; in both cases the store is unchanged. Otherwise it
  succeeds: the record of that name has the supplied fields replaced and the others
  kept, and every other record reads as before.
\<close>

theorem PartitionsController_update_outcomes:
  assumes "distinct (map fst kwargs)"
  shows "(kwarg kwargs ''hosts'' = PNone \<and> kwarg kwargs ''weight'' = PNone \<longrightarrow>
            PartitionsController_update name kwargs col
              = (Inl (AssertionError ''`hosts` or `weight` not found in kwargs''), col))
       \<and> ((kwarg kwargs ''hosts'' \<noteq> PNone \<or> kwarg kwargs ''weight'' \<noteq> PNone)
            \<and> \<not> PartitionsController_exists name col \<longrightarrow>
            PartitionsController_update name kwargs col = (Inl (PartitionNotFound name), col))
       \<and> ((kwarg kwargs ''hosts'' \<noteq> PNone \<or> kwarg kwargs ''weight'' \<noteq> PNone)
            \<and> PartitionsController_exists name col \<longrightarrow>
            fst (PartitionsController_update name kwargs col) = Inr ()
            \<and> (\<forall>p. PartitionsController_get name col = Inr p \<longrightarrow>
                  PartitionsController_get name (snd (PartitionsController_update name kwargs col))
                    = Inr (p\<lparr>part_hosts := (if kwarg kwargs ''hosts'' \<noteq> PNone
                                              then kwarg kwargs ''hosts'' else part_hosts p),
                             part_weight := (if kwarg kwargs ''weight'' \<noteq> PNone
                                               then kwarg kwargs ''weight'' else part_weight p)\<rparr>))
            \<and> (\<forall>other. other \<noteq> name \<longrightarrow>
                  PartitionsController_get other (snd (PartitionsController_update name kwargs col))
                    = PartitionsController_get other col))"
proof (intro conjI impI allI)
  assume "kwarg kwargs ''hosts'' = PNone \<and> kwarg kwargs ''weight'' = PNone"
  then have "update_fields kwargs = []"
    using update_fields_empty [OF assms] by simp
  then show "PartitionsController_update name kwargs col
      = (Inl (AssertionError ''`hosts` or `weight` not found in kwargs''), col)"
    by (rule PartitionsController_update_no_fields)
next
  assume a: "(kwarg kwargs ''hosts'' \<noteq> PNone \<or> kwarg kwargs ''weight'' \<noteq> PNone)
      \<and> \<not> PartitionsController_exists name col"
  then have "update_fields kwargs \<noteq> []"
    using update_fields_empty [OF assms] by auto
  then show "PartitionsController_update name kwargs col = (Inl (PartitionNotFound name), col)"
    using a by (simp add: PartitionsController_update_missing)
next
  assume a: "(kwarg kwargs ''hosts'' \<noteq> PNone \<or> kwarg kwargs ''weight'' \<noteq> PNone)
      \<and> PartitionsController_exists name col"
  then have ne: "update_fields kwargs \<noteq> []"
    using update_fields_empty [OF assms] by auto
  then obtain col' where
    upd: "update_first (doc_matches name) (set_fields (update_fields kwargs)) col = Some col'"
    and res: "PartitionsController_update name kwargs col = (Inr (), col')"
    using a PartitionsController_update_found by blast
  have keep: "doc_matches n (set_fields (update_fields kwargs) x) = doc_matches n x" for n x
    by (rule doc_matches_set_fields)
      (simp_all add: distinct_update_fields [OF assms] map_of_update_fields [OF assms])
  show "fst (PartitionsController_update name kwargs col) = Inr ()"
    using res by simp
  {
    fix p
    assume get: "PartitionsController_get name col = Inr p"
    then obtain d where found: "find (doc_matches name) col = Some d"
      and norm: "normalize_entry d = Inr p"
      by (auto simp: PartitionsController_get_def split: option.splits)
    have "find (doc_matches name) col' = Some (set_fields (update_fields kwargs) d)"
      using upd keep found by (rule update_first_find_same)
    then show "PartitionsController_get name (snd (PartitionsController_update name kwargs col))
        = Inr (p\<lparr>part_hosts := (if kwarg kwargs ''hosts'' \<noteq> PNone
                                  then kwarg kwargs ''hosts'' else part_hosts p),
                 part_weight := (if kwarg kwargs ''weight'' \<noteq> PNone
                                   then kwarg kwargs ''weight'' else part_weight p)\<rparr>)"
      using res normalize_entry_set_fields [OF assms norm]
      by (simp add: PartitionsController_get_def)
  }
  {
    fix other
    assume "other \<noteq> name"
    then have "\<not> doc_matches name x" if "doc_matches other x" for x
      using that by (simp add: doc_matches_def)
    with upd keep have "find (doc_matches other) col' = find (doc_matches other) col"
      by (rule update_first_find_other)
    then show "PartitionsController_get other (snd (PartitionsController_update name kwargs col))
        = PartitionsController_get other col"
      using res by (simp add: PartitionsController_get_def)
  }
qed

theorem PartitionsController_update_outcomes_witness:
  "PartitionsController_update ''s1'' [] partitions_example
     = (Inl (AssertionError ''`hosts` or `weight` not found in kwargs''), partitions_example)
   \<and> PartitionsController_update ''missing'' [(''weight'', PInt 5)] partitions_example
     = (Inl (PartitionNotFound ''missing''), partitions_example)
   \<and> fst (PartitionsController_update ''s1'' [(''weight'', PInt 5)] partitions_example) = Inr ()
   \<and> PartitionsController_get ''s1''
        (snd (PartitionsController_update ''s1'' [(''weight'', PInt 5)] partitions_example))
     = Inr \<lparr>part_name = PStr ''s1'', part_hosts = PList [PStr ''a'', PStr ''b''],
            part_weight = PInt 5\<rparr>
   \<and> PartitionsController_get ''s2''
        (snd (PartitionsController_update ''s1'' [(''weight'', PInt 5)] partitions_example))
     = Inr \<lparr>part_name = PStr ''s2'', part_hosts = PList [PStr ''c''], part_weight = PInt 7\<rparr>"
proof -
  have d0: "distinct (map fst ([] :: (string \<times> pyval) list))"
    and d1: "distinct (map fst [(''weight'', PInt 5)])"
    by simp_all
  have ex: "PartitionsController_exists ''s1'' partitions_example"
    and nex: "\<not> PartitionsController_exists ''missing'' partitions_example"
    by (simp_all add: partitions_example_eq PartitionsController_exists_def doc_matches_def)
  have g1: "PartitionsController_get ''s1'' partitions_example
      = Inr \<lparr>part_name = PStr ''s1'', part_hosts = PList [PStr ''a'', PStr ''b''],
             part_weight = PInt 100\<rparr>"
    and g2: "PartitionsController_get ''s2'' partitions_example
      = Inr \<lparr>part_name = PStr ''s2'', part_hosts = PList [PStr ''c''], part_weight = PInt 7\<rparr>"
    by (simp_all add: partitions_example_eq PartitionsController_get_def doc_matches_def
        normalize_entry_def)
  show ?thesis
    using ex nex g1 g2
      PartitionsController_update_outcomes [OF d0, of "''s1''" partitions_example]
      PartitionsController_update_outcomes [OF d1, of "''missing''" partitions_example]
      PartitionsController_update_outcomes [OF d1, of "''s1''" partitions_example]
    by (simp add: kwarg_def)
qed

end
